theory Spec2Isabelle
  imports Main "HOL-Library.Word"
begin

section \<open>Data model\<close>

text \<open>
  The embedding follows \<^verbatim>\<open>chunked_upload/models.py\<close> and \<^verbatim>\<open>chunked_upload/views.py\<close>.
  Python exceptions are values of type \<open>exn\<close>; a view method returns either an exception
  or a response, together with the world it leaves behind.
\<close>

type_synonym byte = "8 word"

text \<open>
  Modelled from the spec: \<^verbatim>\<open>constants.py\<close> is absent; the status is the enumeration
  \<open>{Uploading, Complete}\<close> and the HTTP statuses are bad-request, forbidden, gone and ok.
\<close>

datatype upload_status = UPLOADING | COMPLETE

datatype http_status =
  HTTP_200_OK | HTTP_400_BAD_REQUEST | HTTP_403_FORBIDDEN | HTTP_410_GONE

text \<open>
  Modelled from the spec: \<^verbatim>\<open>exceptions.py\<close> is absent; a \<open>ChunkedUploadError\<close> is the
  structured error \<open>{statusCode, detail, offset?}\<close>. The other constructors are the
  exceptions that are not a \<open>ChunkedUploadError\<close> and therefore leave \<open>post\<close> uncaught:
  \<open>Http404\<close> from \<open>get_object_or_404\<close>, a storage backend failure, a violated unique
  constraint on save, and the \<open>TypeError\<close> of \<open>None + timedelta\<close>.
\<close>

datatype exn =
  ChunkedUploadError http_status string "int option"
| Http404
| StorageError
| IntegrityError
| TypeError

text \<open>The model \<open>ChunkedUpload\<close>; \<open>md5_cache\<close> is the instance attribute \<open>_md5\<close>.\<close>

record chunked_upload =
  pk :: "nat option"
  upload_id :: string
  file_name :: string
  filename :: string
  offset :: int
  created_on :: "int option"
  status :: upload_status
  completed_on :: "int option"
  user :: "nat option"
  md5_cache :: "string option"

text \<open>
  An uploaded chunk (Django's \<open>UploadedFile\<close>): its name and the bytes \<open>read()\<close> returns.
  Its \<open>size\<close> attribute is the number of bytes received.
\<close>

record uploaded_chunk =
  chunk_name :: string
  chunk_content :: "byte list"

definition size_of :: "uploaded_chunk \<Rightarrow> int" where
  "size_of chunk = int (length (chunk_content chunk))"

text \<open>The \<open>UploadedFile\<close> that \<open>get_uploaded_file\<close> builds: open file, name, size.\<close>

record uploaded_file =
  uf_file :: string
  uf_name :: string
  uf_size :: int

datatype principal = AnonymousUser | User nat

text \<open>
  The parts of the request the views read: \<open>request.user\<close> (absent when the attribute is),
  \<open>request.FILES['file']\<close>, \<open>request.POST['upload_id']\<close>, \<open>request.POST['md5']\<close> and
  \<open>request.META['HTTP_CONTENT_RANGE']\<close>.
\<close>

record request =
  req_user :: "principal option"
  FILES_file :: "uploaded_chunk option"
  POST_upload_id :: "string option"
  POST_md5 :: "string option"
  META_HTTP_CONTENT_RANGE :: "string option"

text \<open>
  The world: the table of the model (rows keyed by \<open>upload_id\<close>, which the model declares
  unique and not editable), the backing objects by name, and the calls of \<open>on_completion\<close>
  made so far (the hook is a placeholder; the log makes its calls visible). One store
  holds the backing objects of both backends: \<open>append_chunk\<close> names the local file and the
  append blob alike by \<open>self.file\<close>.
\<close>

record world =
  objects :: "string \<rightharpoonup> chunked_upload"
  storage :: "string \<rightharpoonup> byte list"
  completions :: "uploaded_file list"

text \<open>
  What can go wrong in the storage backend during one \<open>append_chunk\<close>: opening the local
  file, writing to it (after some bytes went out), or one of the four calls of the
  append-blob client.
\<close>

datatype fault =
  NoFault | OpenFault | WriteFault nat
| ExistsFault | DeleteFault | CreateFault | AppendFault

text \<open>
  Settings (\<^verbatim>\<open>settings.py\<close> is absent, so its values are parameters) and \<open>hashlib.md5\<close>
  followed by \<open>hexdigest\<close>, and the attributes of the two views.
\<close>

record settings =
  EXPIRATION_DELTA :: int
  USE_AZURE_APPEND_BLOB :: bool
  md5_hexdigest :: "byte list \<Rightarrow> string"

record upload_view =
  max_bytes :: "int option"
  fail_if_no_header :: bool

record complete_view =
  do_md5_check :: bool

text \<open>
  What one request takes from its surroundings: \<open>timezone.now()\<close>, the value of
  \<open>uuid.uuid4().hex\<close>, the name the storage gives to the new file \<open>tmp\<close>, the primary
  key the database assigns on insert, and the storage fault of this request.
\<close>

record env =
  now :: int
  uuid4_hex :: string
  available_name :: string
  next_pk :: nat
  fault :: fault

section \<open>Strings\<close>

definition is_digit :: "char \<Rightarrow> bool" where
  "is_digit c = (c \<in> set ''0123456789'')"

definition digit_value :: "char \<Rightarrow> nat" where
  "digit_value c = length (takeWhile (\<lambda>d. d \<noteq> c) ''0123456789'')"

text \<open>\<open>int(s)\<close> on a string of decimal digits.\<close>

definition int_of_digits :: "string \<Rightarrow> nat" where
  "int_of_digits ds = foldl (\<lambda>acc c. 10 * acc + digit_value c) 0 ds"

text \<open>\<open>'%s' % n\<close> for an integer.\<close>

fun str_nat :: "nat \<Rightarrow> string" where
  "str_nat n =
     (if n < 10 then [''0123456789'' ! n]
      else str_nat (n div 10) @ [''0123456789'' ! (n mod 10)])"

declare str_nat.simps [simp del]

definition str_int :: "int \<Rightarrow> string" where
  "str_int i = (if i < 0 then CHR ''-'' # str_nat (nat (- i)) else str_nat (nat i))"

text \<open>
  \<open>content_range_pattern.match\<close>: the pattern
  \<^verbatim>\<open>^bytes (?P<start>\d+)-(?P<end>\d+)/(?P<total>\d+)$\<close>.
  Each \<^verbatim>\<open>\d+\<close> is greedy and is followed by a character that is not a digit, so the
  match is deterministic; \<^verbatim>\<open>$\<close> also matches before one final newline. Among the 256
  characters of \<open>char\<close> the decimal digits are \<open>0\<close> to \<open>9\<close>.
\<close>

definition content_range_pattern_match :: "string \<Rightarrow> (nat \<times> nat \<times> nat) option" where
  "content_range_pattern_match s =
     (if take 6 s \<noteq> ''bytes '' then None
      else
        let s1 = drop 6 s;
            d1 = takeWhile is_digit s1;
            r1 = dropWhile is_digit s1
        in if d1 = [] then None
           else (case r1 of
             [] \<Rightarrow> None
           | c1 # s2 \<Rightarrow>
               if c1 \<noteq> CHR ''-'' then None
               else
                 let d2 = takeWhile is_digit s2;
                     r2 = dropWhile is_digit s2
                 in if d2 = [] then None
                    else (case r2 of
                      [] \<Rightarrow> None
                    | c2 # s3 \<Rightarrow>
                        if c2 \<noteq> CHR ''/'' then None
                        else
                          let d3 = takeWhile is_digit s3;
                              r3 = dropWhile is_digit s3
                          in if d3 = [] then None
                             else if r3 = [] \<or> r3 = [CHR 0x0A]
                             then Some (int_of_digits d1, int_of_digits d2, int_of_digits d3)
                             else None)))"

text \<open>Python's truth value of \<open>request.POST.get(...)\<close>: \<open>None\<close> and \<open>''\<close> are false.\<close>

fun truthy :: "string option \<Rightarrow> bool" where
  "truthy None = False"
| "truthy (Some s) = (s \<noteq> [])"

section \<open>The errors the views raise\<close>

definition MissingChunk :: exn where
  "MissingChunk = ChunkedUploadError HTTP_400_BAD_REQUEST ''No chunk file was submitted'' None"

definition Forbidden :: exn where
  "Forbidden = ChunkedUploadError HTTP_403_FORBIDDEN
     ''Authentication credentials were not provided'' None"

definition Expired :: exn where
  "Expired = ChunkedUploadError HTTP_410_GONE ''Upload has expired'' None"

definition AlreadyComplete :: exn where
  "AlreadyComplete = ChunkedUploadError HTTP_400_BAD_REQUEST
     (''Upload has already been marked as '' @ [CHR 0x22] @ ''complete'' @ [CHR 0x22]) None"

definition MissingRangeHeader :: exn where
  "MissingRangeHeader = ChunkedUploadError HTTP_400_BAD_REQUEST ''Error in request headers'' None"

definition SizeLimitExceeded :: "int \<Rightarrow> exn" where
  "SizeLimitExceeded m = ChunkedUploadError HTTP_400_BAD_REQUEST
     (''Size of file exceeds the limit ('' @ str_int m @ '' bytes)'') None"

definition OffsetMismatch :: "int \<Rightarrow> exn" where
  "OffsetMismatch off = ChunkedUploadError HTTP_400_BAD_REQUEST ''Offsets do not match'' (Some off)"

definition SizeMismatch :: exn where
  "SizeMismatch = ChunkedUploadError HTTP_400_BAD_REQUEST
     (''File size doesn'' @ [CHR 0x27] @ ''t match headers'') None"

definition AlreadyComplete_on_completion :: exn where
  "AlreadyComplete_on_completion = ChunkedUploadError HTTP_400_BAD_REQUEST
     ''Upload has already been marked as complete'' None"

definition ChecksumMismatch :: exn where
  "ChecksumMismatch = ChunkedUploadError HTTP_400_BAD_REQUEST ''md5 checksum does not match'' None"

definition MissingParameters :: "bool \<Rightarrow> exn" where
  "MissingParameters with_md5 = ChunkedUploadError HTTP_400_BAD_REQUEST
     (if with_md5
      then ''Both '' @ [CHR 0x27] @ ''upload_id'' @ [CHR 0x27] @ '' and '' @ [CHR 0x27] @ ''md5''
             @ [CHR 0x27] @ '' are required''
      else [CHR 0x27] @ ''upload_id'' @ [CHR 0x27] @ '' is required'') None"

section \<open>The model: \<^verbatim>\<open>models.py\<close>\<close>

definition expires_on :: "settings \<Rightarrow> chunked_upload \<Rightarrow> int option" where
  "expires_on S self = map_option (\<lambda>c. c + EXPIRATION_DELTA S) (created_on self)"

text \<open>\<open>expired\<close>; on an instance that was never saved \<open>created_on\<close> is \<open>None\<close> and the sum raises.\<close>

definition expired :: "settings \<Rightarrow> env \<Rightarrow> chunked_upload \<Rightarrow> exn + bool" where
  "expired S E self =
     (case expires_on S self of
        None \<Rightarrow> Inl TypeError
      | Some e \<Rightarrow> Inr (e \<le> now E))"

text \<open>
  \<open>md5\<close>: the digest of the whole backing object, computed unless cached; reading an
  object that does not exist raises.
\<close>

definition md5 :: "settings \<Rightarrow> chunked_upload \<Rightarrow> world \<Rightarrow> exn + (string \<times> chunked_upload)" where
  "md5 S self w =
     (case md5_cache self of
        Some h \<Rightarrow> Inr (h, self)
      | None \<Rightarrow>
          (case storage w (file_name self) of
             None \<Rightarrow> Inl StorageError
           | Some bytes \<Rightarrow>
               Inr (md5_hexdigest S bytes, self\<lparr>md5_cache := Some (md5_hexdigest S bytes)\<rparr>)))"

text \<open>
  \<open>Model.save\<close>: an instance without primary key is inserted (the unique constraint on
  \<open>upload_id\<close> may refuse it; \<open>created_on\<close> has \<open>auto_now_add\<close>), one with a primary key
  updates its row. \<open>_md5\<close> is not a column.
\<close>

definition model_save :: "env \<Rightarrow> chunked_upload \<Rightarrow> world \<Rightarrow> (exn + chunked_upload) \<times> world" where
  "model_save E self w =
     (case pk self of
        None \<Rightarrow>
          if objects w (upload_id self) \<noteq> None then (Inl IntegrityError, w)
          else
            let self1 = self\<lparr>pk := Some (next_pk E), created_on := Some (now E)\<rparr>
            in (Inr self1,
                w\<lparr>objects := (objects w)(upload_id self \<mapsto> self1\<lparr>md5_cache := None\<rparr>)\<rparr>)
      | Some _ \<Rightarrow>
          (Inr self, w\<lparr>objects := (objects w)(upload_id self \<mapsto> self\<lparr>md5_cache := None\<rparr>)\<rparr>))"

text \<open>
  The local-file sink (lines 102-104): \<open>open(path, 'ab')\<close> creates a missing file, and
  \<open>write\<close> appends; a failed write may have put out a prefix of the data.
\<close>

definition local_write :: "fault \<Rightarrow> string \<Rightarrow> byte list \<Rightarrow> (string \<rightharpoonup> byte list)
    \<Rightarrow> exn option \<times> (string \<rightharpoonup> byte list)" where
  "local_write f path data st =
     (let old = (case st path of None \<Rightarrow> [] | Some bytes \<Rightarrow> bytes)
      in case f of
           OpenFault \<Rightarrow> (Some StorageError, st)
         | WriteFault k \<Rightarrow> (Some StorageError, st(path \<mapsto> old @ take k data))
         | _ \<Rightarrow> (None, st(path \<mapsto> old @ data)))"

text \<open>The clean slate of the append-blob sink (lines 83-87): exists, delete, create.\<close>

definition create_append_blob :: "fault \<Rightarrow> string \<Rightarrow> (string \<rightharpoonup> byte list)
    \<Rightarrow> exn option \<times> (string \<rightharpoonup> byte list)" where
  "create_append_blob f blob_name st =
     (if f = CreateFault then (Some StorageError, st) else (None, st(blob_name \<mapsto> [])))"

definition clean_slate :: "fault \<Rightarrow> string \<Rightarrow> (string \<rightharpoonup> byte list)
    \<Rightarrow> exn option \<times> (string \<rightharpoonup> byte list)" where
  "clean_slate f blob_name st =
     (if f = ExistsFault then (Some StorageError, st)
      else if st blob_name \<noteq> None then
        (if f = DeleteFault then (Some StorageError, st)
         else create_append_blob f blob_name (st(blob_name := None)))
      else create_append_blob f blob_name st)"

text \<open>\<open>append_block\<close> (line 91): appends to an existing blob, fails on a missing one.\<close>

definition append_block :: "fault \<Rightarrow> string \<Rightarrow> byte list \<Rightarrow> (string \<rightharpoonup> byte list)
    \<Rightarrow> exn option \<times> (string \<rightharpoonup> byte list)" where
  "append_block f blob_name data st =
     (if f = AppendFault then (Some StorageError, st)
      else (case st blob_name of
              None \<Rightarrow> (Some StorageError, st)
            | Some old \<Rightarrow> (None, st(blob_name \<mapsto> old @ data))))"

text \<open>
  The write of \<open>append_chunk\<close> (lines 74-91 and 102-104): the append-blob branch when
  \<open>USE_AZURE_APPEND_BLOB\<close> is set, the local file otherwise. Both branches address the
  backing object by \<open>self.file\<close>.
\<close>

definition blob_sink :: "settings \<Rightarrow> fault \<Rightarrow> chunked_upload \<Rightarrow> uploaded_chunk
    \<Rightarrow> (string \<rightharpoonup> byte list) \<Rightarrow> exn option \<times> (string \<rightharpoonup> byte list)" where
  "blob_sink S f self chunk st =
     (if USE_AZURE_APPEND_BLOB S then
        (case (if offset self = 0 then clean_slate f (file_name self) st else (None, st)) of
           (Some e, st1) \<Rightarrow> (Some e, st1)
         | (None, st1) \<Rightarrow> append_block f (file_name self) (chunk_content chunk) st1)
      else local_write f (file_name self) (chunk_content chunk) st)"

text \<open>
  \<open>append_chunk\<close>: the write, then the offset, the cleared \<open>_md5\<close> and the optional save.
  A chunk always has a \<open>size\<close>, so the last \<open>else\<close> of the offset update is not reached.
\<close>

definition append_chunk :: "settings \<Rightarrow> env \<Rightarrow> uploaded_chunk \<Rightarrow> int option \<Rightarrow> bool
    \<Rightarrow> chunked_upload \<Rightarrow> world \<Rightarrow> (exn + chunked_upload) \<times> world" where
  "append_chunk S E chunk chunk_size save self w =
     (case blob_sink S (fault E) self chunk (storage w) of
        (Some e, st) \<Rightarrow> (Inl e, w\<lparr>storage := st\<rparr>)
      | (None, st) \<Rightarrow>
          let self1 = self\<lparr>offset :=
                (case chunk_size of
                   Some n \<Rightarrow> offset self + n
                 | None \<Rightarrow> offset self + size_of chunk)\<rparr>;
              self2 = self1\<lparr>md5_cache := None\<rparr>;
              w1 = w\<lparr>storage := st\<rparr>
          in if save then model_save E self2 w1 else (Inr self2, w1))"

text \<open>\<open>get_uploaded_file\<close>: reopens the backing object for reading.\<close>

definition get_uploaded_file :: "chunked_upload \<Rightarrow> world \<Rightarrow> exn + uploaded_file" where
  "get_uploaded_file self w =
     (case storage w (file_name self) of
        None \<Rightarrow> Inl StorageError
      | Some _ \<Rightarrow> Inr \<lparr>uf_file = file_name self, uf_name = filename self, uf_size = offset self\<rparr>)"

section \<open>The views: \<^verbatim>\<open>views.py\<close>\<close>

text \<open>
  Modelled from the spec: \<^verbatim>\<open>response.py\<close> is absent; a response is its data and its
  status. The data is the dictionary of \<open>get_response_data\<close> (\<open>upload_id\<close>, \<open>offset\<close>,
  \<open>expires\<close>), the empty dictionary of the base view, or the data of an error.
\<close>

datatype response_data =
  UploadData string int "int option"
| ErrorData string "int option"
| NoData

datatype response = Response response_data http_status

type_synonym result = "(exn + response) \<times> world"

subsection \<open>\<open>ChunkedUploadBaseView\<close>\<close>

fun is_authenticated :: "principal \<Rightarrow> bool" where
  "is_authenticated AnonymousUser = False"
| "is_authenticated (User u) = True"

text \<open>
  \<open>get_queryset\<close>: the model has the field \<open>user\<close>, so the rows are filtered by the
  requesting user when the request has an authenticated one.
\<close>

definition get_queryset :: "request \<Rightarrow> world \<Rightarrow> (string \<rightharpoonup> chunked_upload)" where
  "get_queryset request w =
     (case req_user request of
        Some (User u) \<Rightarrow>
          (\<lambda>k. case objects w k of
                 None \<Rightarrow> None
               | Some row \<Rightarrow> if user row = Some u then Some row else None)
      | _ \<Rightarrow> objects w)"

text \<open>\<open>get_object_or_404\<close>; the instance it loads has no attribute \<open>_md5\<close>.\<close>

definition get_object_or_404 :: "(string \<rightharpoonup> chunked_upload) \<Rightarrow> string \<Rightarrow> exn + chunked_upload" where
  "get_object_or_404 queryset uid =
     (case queryset uid of
        None \<Rightarrow> Inl Http404
      | Some row \<Rightarrow> Inr (row\<lparr>md5_cache := None\<rparr>))"

text \<open>\<open>validate\<close> is a placeholder: it raises nothing.\<close>

definition validate :: "request \<Rightarrow> exn option" where
  "validate request = None"

text \<open>\<open>_save\<close>: \<open>pre_save\<close> and \<open>post_save\<close> are placeholders, \<open>save\<close> calls \<open>Model.save\<close>.\<close>

definition view_save :: "env \<Rightarrow> chunked_upload \<Rightarrow> world \<Rightarrow> (exn + chunked_upload) \<times> world" where
  "view_save E chunked_upload w = model_save E chunked_upload w"

definition check_permissions :: "request \<Rightarrow> exn option" where
  "check_permissions request =
     (case req_user request of
        None \<Rightarrow> None
      | Some u \<Rightarrow> if \<not> is_authenticated u then Some Forbidden else None)"

text \<open>
  \<open>post\<close>: checks the permissions, runs the \<open>_post\<close> of the view and turns a
  \<open>ChunkedUploadError\<close> into a response; every other exception goes on.
\<close>

definition error_response :: "exn \<Rightarrow> exn + response" where
  "error_response e =
     (case e of
        ChunkedUploadError st detail off \<Rightarrow> Inr (Response (ErrorData detail off) st)
      | _ \<Rightarrow> Inl e)"

definition post :: "(request \<Rightarrow> world \<Rightarrow> result) \<Rightarrow> request \<Rightarrow> world \<Rightarrow> result" where
  "post view_post request w =
     (case check_permissions request of
        Some e \<Rightarrow> (error_response e, w)
      | None \<Rightarrow>
          (case view_post request w of
             (Inl e, w1) \<Rightarrow> (error_response e, w1)
           | (Inr r, w1) \<Rightarrow> (Inr r, w1)))"

subsection \<open>\<open>ChunkedUploadView\<close>\<close>

definition get_extra_attrs :: "request \<Rightarrow> nat option" where
  "get_extra_attrs request =
     (case req_user request of
        Some (User u) \<Rightarrow> Some u
      | _ \<Rightarrow> None)"

definition get_max_bytes :: "upload_view \<Rightarrow> request \<Rightarrow> int option" where
  "get_max_bytes V request = max_bytes V"

text \<open>
  \<open>create_chunked_upload\<close>: a new instance with the defaults of the model, and the empty
  file \<open>tmp\<close> saved under the name the storage gives it.
\<close>

definition create_chunked_upload :: "env \<Rightarrow> bool \<Rightarrow> string \<Rightarrow> nat option \<Rightarrow> world
    \<Rightarrow> (exn + chunked_upload) \<times> world" where
  "create_chunked_upload E save fname usr w =
     (let chunked_upload =
            \<lparr>pk = None, upload_id = uuid4_hex E, file_name = available_name E,
             filename = fname, offset = 0, created_on = None, status = UPLOADING,
             completed_on = None, user = usr, md5_cache = None\<rparr>;
          w1 = w\<lparr>storage := (storage w)(available_name E \<mapsto> [])\<rparr>
      in if save then model_save E chunked_upload w1 else (Inr chunked_upload, w1))"

definition ChunkedUploadView_is_valid_chunked_upload ::
    "settings \<Rightarrow> env \<Rightarrow> chunked_upload \<Rightarrow> exn option" where
  "ChunkedUploadView_is_valid_chunked_upload S E chunked_upload =
     (case expired S E chunked_upload of
        Inl e \<Rightarrow> Some e
      | Inr True \<Rightarrow> Some Expired
      | Inr False \<Rightarrow> if status chunked_upload = COMPLETE then Some AlreadyComplete else None)"

definition ChunkedUploadView_get_response_data :: "settings \<Rightarrow> chunked_upload \<Rightarrow> response_data" where
  "ChunkedUploadView_get_response_data S chunked_upload =
     UploadData (upload_id chunked_upload) (offset chunked_upload) (expires_on S chunked_upload)"

text \<open>Lines 181-189 of \<open>_post\<close>: the upload named by the request, or a new one.\<close>

definition resolve_upload :: "settings \<Rightarrow> env \<Rightarrow> request \<Rightarrow> uploaded_chunk \<Rightarrow> world
    \<Rightarrow> (exn + chunked_upload) \<times> world" where
  "resolve_upload S E request chunk w =
     (if truthy (POST_upload_id request) then
        (case get_object_or_404 (get_queryset request w) (the (POST_upload_id request)) of
           Inl e \<Rightarrow> (Inl e, w)
         | Inr chunked_upload \<Rightarrow>
             (case ChunkedUploadView_is_valid_chunked_upload S E chunked_upload of
                Some e \<Rightarrow> (Inl e, w)
              | None \<Rightarrow> (Inr chunked_upload, w)))
      else create_chunked_upload E False (chunk_name chunk) (get_extra_attrs request) w)"

text \<open>Lines 191-204 of \<open>_post\<close>: the range of the header, or the whole chunk.\<close>

definition declared_range :: "upload_view \<Rightarrow> request \<Rightarrow> uploaded_chunk \<Rightarrow> exn + (int \<times> int \<times> int)" where
  "declared_range V request chunk =
     (let content_range = (case META_HTTP_CONTENT_RANGE request of None \<Rightarrow> [] | Some h \<Rightarrow> h)
      in case content_range_pattern_match content_range of
           Some (start, end', tot) \<Rightarrow> Inr (int start, int end', int tot)
         | None \<Rightarrow>
             if fail_if_no_header V then Inl MissingRangeHeader
             else Inr (0, size_of chunk - 1, size_of chunk))"

text \<open>Lines 206-227 of \<open>_post\<close>: the three checks, the append, the save, the response.\<close>

definition check_and_append :: "settings \<Rightarrow> upload_view \<Rightarrow> env \<Rightarrow> request \<Rightarrow> uploaded_chunk
    \<Rightarrow> chunked_upload \<Rightarrow> int \<times> int \<times> int \<Rightarrow> world \<Rightarrow> result" where
  "check_and_append S V E request chunk chunked_upload rng w =
     (case rng of (start, end', tot) \<Rightarrow>
        let chunk_size = end' - start + 1;
            limit = get_max_bytes V request
        in
        if limit \<noteq> None \<and> tot > the limit then (Inl (SizeLimitExceeded (the limit)), w)
        else if offset chunked_upload \<noteq> start then
          (Inl (OffsetMismatch (offset chunked_upload)), w)
        else if size_of chunk \<noteq> chunk_size then (Inl SizeMismatch, w)
        else
          (case append_chunk S E chunk (Some chunk_size) False chunked_upload w of
             (Inl e, w1) \<Rightarrow> (Inl e, w1)
           | (Inr appended, w1) \<Rightarrow>
               (case view_save E appended w1 of
                  (Inl e, w2) \<Rightarrow> (Inl e, w2)
                | (Inr saved, w2) \<Rightarrow>
                    (Inr (Response (ChunkedUploadView_get_response_data S saved) HTTP_200_OK),
                     w2))))"

definition ChunkedUploadView_post :: "settings \<Rightarrow> upload_view \<Rightarrow> env \<Rightarrow> request \<Rightarrow> world \<Rightarrow> result" where
  "ChunkedUploadView_post S V E request w =
     (case FILES_file request of
        None \<Rightarrow> (Inl MissingChunk, w)
      | Some chunk \<Rightarrow>
          (case validate request of
             Some e \<Rightarrow> (Inl e, w)
           | None \<Rightarrow>
               (case resolve_upload S E request chunk w of
                  (Inl e, w1) \<Rightarrow> (Inl e, w1)
                | (Inr chunked_upload, w1) \<Rightarrow>
                    (case declared_range V request chunk of
                       Inl e \<Rightarrow> (Inl e, w1)
                     | Inr rng \<Rightarrow>
                         check_and_append S V E request chunk chunked_upload rng w1))))"

subsection \<open>\<open>ChunkedUploadCompleteView\<close>\<close>

text \<open>\<open>on_completion\<close> is a placeholder; its call is recorded with its argument.\<close>

definition on_completion :: "uploaded_file \<Rightarrow> request \<Rightarrow> world \<Rightarrow> world" where
  "on_completion uploaded_file request w =
     w\<lparr>completions := completions w @ [uploaded_file]\<rparr>"

definition ChunkedUploadCompleteView_is_valid_chunked_upload :: "chunked_upload \<Rightarrow> exn option" where
  "ChunkedUploadCompleteView_is_valid_chunked_upload chunked_upload =
     (if status chunked_upload = COMPLETE then Some AlreadyComplete_on_completion else None)"

definition md5_check :: "settings \<Rightarrow> chunked_upload \<Rightarrow> string option \<Rightarrow> world
    \<Rightarrow> exn + chunked_upload" where
  "md5_check S chunked_upload client_md5 w =
     (case md5 S chunked_upload w of
        Inl e \<Rightarrow> Inl e
      | Inr (digest, hashed) \<Rightarrow>
          if Some digest \<noteq> client_md5 then Inl ChecksumMismatch else Inr hashed)"

text \<open>The complete view inherits \<open>get_response_data\<close> of the base view: the empty dictionary.\<close>

definition ChunkedUploadCompleteView_post :: "settings \<Rightarrow> complete_view \<Rightarrow> env \<Rightarrow> request
    \<Rightarrow> world \<Rightarrow> result" where
  "ChunkedUploadCompleteView_post S C E request w =
     (let uid = POST_upload_id request;
          client_md5 = POST_md5 request;
          error_msg =
            (if do_md5_check C then
               (if \<not> truthy uid \<or> \<not> truthy client_md5 then Some (MissingParameters True)
                else None)
             else if \<not> truthy uid then Some (MissingParameters False)
             else None)
      in case error_msg of
           Some e \<Rightarrow> (Inl e, w)
         | None \<Rightarrow>
             (case get_object_or_404 (get_queryset request w) (the uid) of
                Inl e \<Rightarrow> (Inl e, w)
              | Inr chunked_upload \<Rightarrow>
                  (case validate request of
                     Some e \<Rightarrow> (Inl e, w)
                   | None \<Rightarrow>
                       (case ChunkedUploadCompleteView_is_valid_chunked_upload chunked_upload of
                          Some e \<Rightarrow> (Inl e, w)
                        | None \<Rightarrow>
                            (case (if do_md5_check C
                                   then md5_check S chunked_upload client_md5 w
                                   else Inr chunked_upload) of
                               Inl e \<Rightarrow> (Inl e, w)
                             | Inr checked \<Rightarrow>
                                 (case view_save E
                                         (checked\<lparr>status := COMPLETE,
                                                  completed_on := Some (now E)\<rparr>) w of
                                    (Inl e, w1) \<Rightarrow> (Inl e, w1)
                                  | (Inr saved, w1) \<Rightarrow>
                                      (case get_uploaded_file saved w1 of
                                         Inl e \<Rightarrow> (Inl e, w1)
                                       | Inr uploaded_file \<Rightarrow>
                                           (Inr (Response NoData HTTP_200_OK),
                                            on_completion uploaded_file request w1))))))))"

section \<open>Sequences of chunk requests\<close>

text \<open>The requests of one client, each with its surroundings, served one after the other.\<close>

fun run_posts :: "settings \<Rightarrow> upload_view \<Rightarrow> (env \<times> request) list \<Rightarrow> world
    \<Rightarrow> (exn + response) list \<times> world" where
  "run_posts S V [] w = ([], w)"
| "run_posts S V ((E, request) # rest) w =
     (case ChunkedUploadView_post S V E request w of
        (r, w1) \<Rightarrow> (case run_posts S V rest w1 of (rs, w2) \<Rightarrow> (r # rs, w2)))"

definition payload :: "request \<Rightarrow> byte list" where
  "payload request = (case FILES_file request of None \<Rightarrow> [] | Some chunk \<Rightarrow> chunk_content chunk)"

text \<open>
  One request passes every check of \<open>_post\<close> at the offset \<open>off\<close>: it carries a chunk, its
  range starts at \<open>off\<close>, its payload has the declared size, its total is within
  \<open>max_bytes\<close>, and the storage does not fail.
\<close>

definition passes_checks :: "upload_view \<Rightarrow> int \<Rightarrow> env \<Rightarrow> request \<Rightarrow> bool" where
  "passes_checks V off E request =
     (case FILES_file request of
        None \<Rightarrow> False
      | Some chunk \<Rightarrow>
          (case declared_range V request chunk of
             Inl e \<Rightarrow> False
           | Inr (start, end', tot) \<Rightarrow>
               start = off \<and> size_of chunk = end' - start + 1 \<and>
               (case max_bytes V of None \<Rightarrow> True | Some m \<Rightarrow> tot \<le> m))
          \<and> fault E = NoFault)"

text \<open>
  The first request of a new upload: no \<open>upload_id\<close>, an identifier that is not in the
  table yet, and every check passed at offset 0.
\<close>

definition starts_upload :: "upload_view \<Rightarrow> env \<Rightarrow> request \<Rightarrow> world \<Rightarrow> bool" where
  "starts_upload V E request w =
     (\<not> truthy (POST_upload_id request) \<and> objects w (uuid4_hex E) = None \<and>
      passes_checks V 0 E request)"

text \<open>
  The later requests, in order: each names the upload \<open>uid\<close>, comes from its owner (or
  from nobody in particular), arrives before the upload created at \<open>created\<close> expires, and
  passes every check at the offset the requests before it have reached.
\<close>

fun continues_in_order :: "settings \<Rightarrow> upload_view \<Rightarrow> string \<Rightarrow> nat option \<Rightarrow> int \<Rightarrow> int
    \<Rightarrow> (env \<times> request) list \<Rightarrow> bool" where
  "continues_in_order S V uid owner created off [] = True"
| "continues_in_order S V uid owner created off ((E, request) # rest) =
     (POST_upload_id request = Some uid \<and> uid \<noteq> [] \<and>
      (case req_user request of Some (User u) \<Rightarrow> owner = Some u | _ \<Rightarrow> True) \<and>
      now E < created + EXPIRATION_DELTA S \<and>
      passes_checks V off E request \<and>
      continues_in_order S V uid owner created (off + int (length (payload request))) rest)"

section \<open>Concrete inputs\<close>

text \<open>A stand-in for the digest, settings, a stored upload, and requests built from strings.\<close>

definition toy_digest :: "byte list \<Rightarrow> string" where
  "toy_digest bytes = str_nat (length bytes)"

definition S0 :: settings where
  "S0 = \<lparr>EXPIRATION_DELTA = 86400, USE_AZURE_APPEND_BLOB = False, md5_hexdigest = toy_digest\<rparr>"

definition row0 :: chunked_upload where
  "row0 = \<lparr>pk = Some 1, upload_id = ''u1'', file_name = ''tmp'', filename = ''a.txt'',
     offset = 0, created_on = Some 0, status = UPLOADING, completed_on = None, user = None,
     md5_cache = None\<rparr>"

definition w0 :: world where
  "w0 = \<lparr>objects = [''u1'' \<mapsto> row0], storage = [''tmp'' \<mapsto> []], completions = []\<rparr>"

definition empty_world :: world where
  "empty_world = \<lparr>objects = Map.empty, storage = Map.empty, completions = []\<rparr>"

definition E0 :: env where
  "E0 = \<lparr>now = 10, uuid4_hex = ''u2'', available_name = ''tmp_1'', next_pk = 2, fault = NoFault\<rparr>"

definition zeros :: "nat \<Rightarrow> uploaded_chunk" where
  "zeros n = \<lparr>chunk_name = ''a.txt'', chunk_content = replicate n 0\<rparr>"

definition chunk_request :: "string option \<Rightarrow> string option \<Rightarrow> uploaded_chunk \<Rightarrow> request" where
  "chunk_request uid header chunk =
     \<lparr>req_user = None, FILES_file = Some chunk, POST_upload_id = uid, POST_md5 = None,
      META_HTTP_CONTENT_RANGE = header\<rparr>"

definition complete_request :: "string option \<Rightarrow> string option \<Rightarrow> request" where
  "complete_request uid client_md5 =
     \<lparr>req_user = None, FILES_file = None, POST_upload_id = uid, POST_md5 = client_md5,
      META_HTTP_CONTENT_RANGE = None\<rparr>"

section \<open>Properties\<close>

lemmas view_defs = ChunkedUploadView_post_def validate_def resolve_upload_def
  get_object_or_404_def ChunkedUploadView_is_valid_chunked_upload_def expired_def expires_on_def
  check_and_append_def get_max_bytes_def

lemmas fixture_defs = S0_def E0_def w0_def row0_def chunk_request_def complete_request_def
  zeros_def empty_world_def get_queryset_def declared_range_def content_range_pattern_match_def
  is_digit_def int_of_digits_def digit_value_def size_of_def

lemma no_header_no_match: "content_range_pattern_match [] = None"
  by (simp add: content_range_pattern_match_def)

subsection \<open>Chunks out of order\<close>

text \<open>
  C1 (as amended). A chunk request names an existing upload and declares a start that is
  not the offset of the upload. Then the request fails and leaves the world as it was,
  offset included. When the upload has not expired, is not complete and the declared total
  is within \<open>max_bytes\<close>, the failure is \<open>OffsetMismatch\<close> and carries the offset of the
  upload.
\<close>

theorem offset_mismatch_rejected:
  assumes "FILES_file request = Some chunk"
      and "truthy (POST_upload_id request)"
      and "get_queryset request w (the (POST_upload_id request)) = Some row"
      and "declared_range V request chunk = Inr (start, end', tot)"
      and "offset row \<noteq> start"
  shows "snd (ChunkedUploadView_post S V E request w) = w \<and>
         (\<exists>e. fst (ChunkedUploadView_post S V E request w) = Inl e) \<and>
         ((\<exists>c. created_on row = Some c \<and> now E < c + EXPIRATION_DELTA S) \<and>
          status row \<noteq> COMPLETE \<and> (\<forall>m. max_bytes V = Some m \<longrightarrow> tot \<le> m) \<longrightarrow>
          fst (ChunkedUploadView_post S V E request w) = Inl (OffsetMismatch (offset row)))"
  using assms
  by (auto simp: view_defs Let_def split: option.splits sum.splits bool.splits)

text \<open>
  The second chunk of the spec's scenario sent first: \<open>bytes 50-99/100\<close> at offset 0.
\<close>

theorem offset_mismatch_rejected_witness:
  "get_queryset (chunk_request (Some ''u1'') (Some ''bytes 50-99/100'') (zeros 50)) w0 ''u1''
     = Some row0 \<and>
   declared_range \<lparr>max_bytes = Some 1000, fail_if_no_header = False\<rparr>
     (chunk_request (Some ''u1'') (Some ''bytes 50-99/100'') (zeros 50)) (zeros 50)
     = Inr (50, 99, 100) \<and>
   offset row0 \<noteq> 50 \<and>
   ChunkedUploadView_post S0 \<lparr>max_bytes = Some 1000, fail_if_no_header = False\<rparr> E0
     (chunk_request (Some ''u1'') (Some ''bytes 50-99/100'') (zeros 50)) w0
   = (Inl (OffsetMismatch 0), w0)"
  using offset_mismatch_rejected [of "chunk_request (Some ''u1'') (Some ''bytes 50-99/100'') (zeros 50)"
     "zeros 50" w0 row0 "\<lparr>max_bytes = Some 1000, fail_if_no_header = False\<rparr>" 50 99 100 S0 E0]
  by (simp add: fixture_defs prod_eq_iff)

text \<open>
  The claim as stated fails: with \<open>max_bytes = 1000\<close>, the range \<open>bytes 10-19/2000\<close> on an
  upload at offset 0 is refused for its size, and the error carries no offset.
\<close>

theorem offset_mismatch_preempted:
  "objects w0 ''u1'' = Some row0 \<and>
   declared_range \<lparr>max_bytes = Some 1000, fail_if_no_header = False\<rparr>
     (chunk_request (Some ''u1'') (Some ''bytes 10-19/2000'') (zeros 10)) (zeros 10)
     = Inr (10, 19, 2000) \<and>
   offset row0 \<noteq> 10 \<and>
   fst (ChunkedUploadView_post S0 \<lparr>max_bytes = Some 1000, fail_if_no_header = False\<rparr> E0
     (chunk_request (Some ''u1'') (Some ''bytes 10-19/2000'') (zeros 10)) w0)
     = Inl (SizeLimitExceeded 1000) \<and>
   fst (ChunkedUploadView_post S0 \<lparr>max_bytes = Some 1000, fail_if_no_header = False\<rparr> E0
     (chunk_request (Some ''u1'') (Some ''bytes 10-19/2000'') (zeros 10)) w0)
     \<noteq> Inl (OffsetMismatch (offset row0))"
  by (simp add: view_defs fixture_defs SizeLimitExceeded_def OffsetMismatch_def)

subsection \<open>Chunks for a complete upload\<close>

text \<open>
  C5 (as amended). A chunk request names an upload whose status is \<open>COMPLETE\<close>. Then the
  request fails before anything is appended: the world, with the offset and the backing
  object, is as it was. When the request carries a chunk and the upload has not expired,
  the failure is \<open>AlreadyComplete\<close>.
\<close>

theorem complete_upload_rejects_chunks:
  assumes "truthy (POST_upload_id request)"
      and "get_queryset request w (the (POST_upload_id request)) = Some row"
      and "status row = COMPLETE"
  shows "snd (ChunkedUploadView_post S V E request w) = w \<and>
         (\<exists>e. fst (ChunkedUploadView_post S V E request w) = Inl e) \<and>
         (FILES_file request \<noteq> None \<and>
          (\<exists>c. created_on row = Some c \<and> now E < c + EXPIRATION_DELTA S) \<longrightarrow>
          fst (ChunkedUploadView_post S V E request w) = Inl AlreadyComplete)"
  using assms
  by (auto simp: view_defs Let_def split: option.splits sum.splits bool.splits)

theorem complete_upload_rejects_chunks_witness:
  "get_queryset (chunk_request (Some ''u1'') (Some ''bytes 0-9/10'') (zeros 10))
     (w0\<lparr>objects := [''u1'' \<mapsto> row0\<lparr>status := COMPLETE\<rparr>]\<rparr>) ''u1''
     = Some (row0\<lparr>status := COMPLETE\<rparr>) \<and>
   ChunkedUploadView_post S0 \<lparr>max_bytes = None, fail_if_no_header = False\<rparr> E0
     (chunk_request (Some ''u1'') (Some ''bytes 0-9/10'') (zeros 10))
     (w0\<lparr>objects := [''u1'' \<mapsto> row0\<lparr>status := COMPLETE\<rparr>]\<rparr>)
   = (Inl AlreadyComplete, w0\<lparr>objects := [''u1'' \<mapsto> row0\<lparr>status := COMPLETE\<rparr>]\<rparr>)"
  using complete_upload_rejects_chunks [of "chunk_request (Some ''u1'') (Some ''bytes 0-9/10'') (zeros 10)"
     "w0\<lparr>objects := [''u1'' \<mapsto> row0\<lparr>status := COMPLETE\<rparr>]\<rparr>" "row0\<lparr>status := COMPLETE\<rparr>"
     S0 "\<lparr>max_bytes = None, fail_if_no_header = False\<rparr>" E0]
  by (simp add: fixture_defs prod_eq_iff)

text \<open>
  The claim as stated fails: a complete upload whose expiration time has passed (created
  at 0, window 86400, now 90000) answers \<open>Expired\<close>, which \<open>is_valid_chunked_upload\<close>
  checks first.
\<close>

theorem expired_complete_upload_reports_expired:
  "status (row0\<lparr>status := COMPLETE\<rparr>) = COMPLETE \<and>
   fst (ChunkedUploadView_post S0 \<lparr>max_bytes = None, fail_if_no_header = False\<rparr>
     (E0\<lparr>now := 90000\<rparr>)
     (chunk_request (Some ''u1'') (Some ''bytes 0-9/10'') (zeros 10))
     (w0\<lparr>objects := [''u1'' \<mapsto> row0\<lparr>status := COMPLETE\<rparr>]\<rparr>)) = Inl Expired \<and>
   Expired \<noteq> AlreadyComplete"
  by (simp add: view_defs fixture_defs Expired_def AlreadyComplete_def)

subsection \<open>Accepted chunks\<close>

lemmas sink_defs = blob_sink_def local_write_def clean_slate_def create_append_blob_def
  append_block_def

text \<open>
  The first chunk of a new upload that passes every check: the response, the new row and
  the backing object.
\<close>

lemma new_upload_accepted:
  assumes "FILES_file request = Some chunk"
      and "\<not> truthy (POST_upload_id request)"
      and "objects w (uuid4_hex E) = None"
      and "declared_range V request chunk = Inr (0, end', tot)"
      and "size_of chunk = end' + 1"
      and "\<forall>m. max_bytes V = Some m \<longrightarrow> tot \<le> m"
      and "fault E = NoFault"
  shows "ChunkedUploadView_post S V E request w =
    (Inr (Response (UploadData (uuid4_hex E) (size_of chunk) (Some (now E + EXPIRATION_DELTA S)))
            HTTP_200_OK),
     w\<lparr>objects := (objects w)(uuid4_hex E \<mapsto>
          \<lparr>pk = Some (next_pk E), upload_id = uuid4_hex E, file_name = available_name E,
           filename = chunk_name chunk, offset = size_of chunk, created_on = Some (now E),
           status = UPLOADING, completed_on = None, user = get_extra_attrs request,
           md5_cache = None\<rparr>),
        storage := (storage w)(available_name E \<mapsto> chunk_content chunk)\<rparr>)"
  using assms
  by (auto simp: view_defs Let_def create_chunked_upload_def append_chunk_def sink_defs
      view_save_def model_save_def ChunkedUploadView_get_response_data_def
      split: option.splits sum.splits bool.splits)

text \<open>
  A chunk for a stored upload that passes every check, when the backing object holds as
  many bytes as the offset says.
\<close>

lemma continuing_chunk_accepted:
  assumes "FILES_file request = Some chunk"
      and "POST_upload_id request = Some uid" and "uid \<noteq> []"
      and "get_queryset request w uid = Some row"
      and "pk row = Some k"
      and "created_on row = Some c" and "now E < c + EXPIRATION_DELTA S"
      and "status row \<noteq> COMPLETE"
      and "declared_range V request chunk = Inr (offset row, end', tot)"
      and "size_of chunk = end' - offset row + 1"
      and "\<forall>m. max_bytes V = Some m \<longrightarrow> tot \<le> m"
      and "fault E = NoFault"
      and "storage w (file_name row) = Some bytes"
      and "int (length bytes) = offset row"
  shows "ChunkedUploadView_post S V E request w =
    (Inr (Response (UploadData (upload_id row) (offset row + size_of chunk)
            (Some (c + EXPIRATION_DELTA S))) HTTP_200_OK),
     w\<lparr>storage := (storage w)(file_name row \<mapsto> bytes @ chunk_content chunk),
        objects := (objects w)(upload_id row \<mapsto>
          row\<lparr>offset := offset row + size_of chunk, md5_cache := None\<rparr>)\<rparr>)"
  using assms
  by (auto simp: view_defs Let_def append_chunk_def sink_defs
      view_save_def model_save_def ChunkedUploadView_get_response_data_def
      split: option.splits sum.splits bool.splits)

subsection \<open>Requests without a range header\<close>

text \<open>
  C7. A chunk request has no range header and \<open>fail_if_no_header\<close> is false. Then the range
  is \<open>start = 0\<close>, \<open>end = size - 1\<close>, \<open>total = size\<close>. In particular, when the request
  names no upload and carries 100 bytes (and \<open>max_bytes\<close> admits 100 bytes, the new
  identifier is unused and the storage does not fail), the response reports offset 100 and
  the new upload is stored with offset 100 and status \<open>UPLOADING\<close>, its backing object
  holding the chunk.
\<close>

theorem no_header_whole_chunk:
  assumes "META_HTTP_CONTENT_RANGE request = None"
      and "\<not> fail_if_no_header V"
      and "FILES_file request = Some chunk"
  shows "declared_range V request chunk = Inr (0, size_of chunk - 1, size_of chunk) \<and>
    (\<not> truthy (POST_upload_id request) \<and> length (chunk_content chunk) = 100 \<and>
     (\<forall>m. max_bytes V = Some m \<longrightarrow> 100 \<le> m) \<and> objects w (uuid4_hex E) = None \<and>
     fault E = NoFault \<longrightarrow>
       fst (ChunkedUploadView_post S V E request w) =
         Inr (Response (UploadData (uuid4_hex E) 100 (Some (now E + EXPIRATION_DELTA S)))
                HTTP_200_OK) \<and>
       (\<exists>row. objects (snd (ChunkedUploadView_post S V E request w)) (uuid4_hex E) = Some row \<and>
          offset row = 100 \<and> status row = UPLOADING \<and> filename row = chunk_name chunk \<and>
          storage (snd (ChunkedUploadView_post S V E request w)) (file_name row)
            = Some (chunk_content chunk)))"
proof -
  have rng: "declared_range V request chunk = Inr (0, size_of chunk - 1, size_of chunk)"
    using assms by (simp add: declared_range_def no_header_no_match)
  have "fst (ChunkedUploadView_post S V E request w) =
         Inr (Response (UploadData (uuid4_hex E) 100 (Some (now E + EXPIRATION_DELTA S)))
                HTTP_200_OK) \<and>
       (\<exists>row. objects (snd (ChunkedUploadView_post S V E request w)) (uuid4_hex E) = Some row \<and>
          offset row = 100 \<and> status row = UPLOADING \<and> filename row = chunk_name chunk \<and>
          storage (snd (ChunkedUploadView_post S V E request w)) (file_name row)
            = Some (chunk_content chunk))"
    if new: "\<not> truthy (POST_upload_id request)" and len: "length (chunk_content chunk) = 100"
      and lim: "\<forall>m. max_bytes V = Some m \<longrightarrow> 100 \<le> m"
      and fresh: "objects w (uuid4_hex E) = None" and ok: "fault E = NoFault"
  proof -
    have sz: "size_of chunk = 100" using len by (simp add: size_of_def)
    have "ChunkedUploadView_post S V E request w =
      (Inr (Response (UploadData (uuid4_hex E) (size_of chunk)
              (Some (now E + EXPIRATION_DELTA S))) HTTP_200_OK),
       w\<lparr>objects := (objects w)(uuid4_hex E \<mapsto>
            \<lparr>pk = Some (next_pk E), upload_id = uuid4_hex E, file_name = available_name E,
             filename = chunk_name chunk, offset = size_of chunk, created_on = Some (now E),
             status = UPLOADING, completed_on = None, user = get_extra_attrs request,
             md5_cache = None\<rparr>),
          storage := (storage w)(available_name E \<mapsto> chunk_content chunk)\<rparr>)"
      using assms(3) new fresh rng lim ok sz
      by (intro new_upload_accepted [where end' = "size_of chunk - 1" and tot = "size_of chunk"])
         simp_all
    then show ?thesis by (simp add: sz)
  qed
  with rng show ?thesis by blast
qed

text \<open>The spec's scenario: 100 bytes named \<open>a.txt\<close>, no header, no upload yet.\<close>

theorem no_header_whole_chunk_witness:
  "declared_range \<lparr>max_bytes = None, fail_if_no_header = False\<rparr>
     (chunk_request None None (zeros 100)) (zeros 100) = Inr (0, 99, 100) \<and>
   fst (ChunkedUploadView_post S0 \<lparr>max_bytes = None, fail_if_no_header = False\<rparr> E0
          (chunk_request None None (zeros 100)) empty_world)
     = Inr (Response (UploadData ''u2'' 100 (Some 86410)) HTTP_200_OK) \<and>
   (\<exists>row. objects (snd (ChunkedUploadView_post S0 \<lparr>max_bytes = None, fail_if_no_header = False\<rparr>
             E0 (chunk_request None None (zeros 100)) empty_world)) ''u2'' = Some row \<and>
      offset row = 100 \<and> status row = UPLOADING \<and> filename row = ''a.txt'')"
  using no_header_whole_chunk [of "chunk_request None None (zeros 100)"
      "\<lparr>max_bytes = None, fail_if_no_header = False\<rparr>" "zeros 100" empty_world E0 S0]
  by (auto simp: fixture_defs)

subsection \<open>A new upload that does not start at byte 0\<close>

text \<open>
  C9 (as amended). A chunk request names no upload and its range declares a start other
  than 0. Then the request fails and no upload is stored. When the declared total is
  within \<open>max_bytes\<close>, the failure is \<open>OffsetMismatch\<close> and carries the offset 0 of the
  upload that was just created.
\<close>

theorem new_upload_must_start_at_zero:
  assumes "FILES_file request = Some chunk"
      and "\<not> truthy (POST_upload_id request)"
      and "declared_range V request chunk = Inr (start, end', tot)"
      and "start \<noteq> 0"
  shows "objects (snd (ChunkedUploadView_post S V E request w)) = objects w \<and>
         (\<exists>e. fst (ChunkedUploadView_post S V E request w) = Inl e) \<and>
         ((\<forall>m. max_bytes V = Some m \<longrightarrow> tot \<le> m) \<longrightarrow>
          fst (ChunkedUploadView_post S V E request w) = Inl (OffsetMismatch 0))"
  using assms
  by (auto simp: view_defs Let_def create_chunked_upload_def
      split: option.splits sum.splits bool.splits)

theorem new_upload_must_start_at_zero_witness:
  "declared_range \<lparr>max_bytes = Some 1000, fail_if_no_header = False\<rparr>
     (chunk_request None (Some ''bytes 50-99/100'') (zeros 50)) (zeros 50) = Inr (50, 99, 100) \<and>
   fst (ChunkedUploadView_post S0 \<lparr>max_bytes = Some 1000, fail_if_no_header = False\<rparr> E0
          (chunk_request None (Some ''bytes 50-99/100'') (zeros 50)) w0)
     = Inl (OffsetMismatch 0) \<and>
   objects (snd (ChunkedUploadView_post S0 \<lparr>max_bytes = Some 1000, fail_if_no_header = False\<rparr>
          E0 (chunk_request None (Some ''bytes 50-99/100'') (zeros 50)) w0)) = objects w0"
  using new_upload_must_start_at_zero [of "chunk_request None (Some ''bytes 50-99/100'') (zeros 50)"
      "zeros 50" "\<lparr>max_bytes = Some 1000, fail_if_no_header = False\<rparr>" 50 99 100 S0 E0 w0]
  by (simp add: fixture_defs)

text \<open>
  The claim as stated fails: with \<open>max_bytes = 1000\<close>, a new upload with the range
  \<open>bytes 50-99/2000\<close> is refused for its size before the offsets are compared.
\<close>

theorem new_upload_size_checked_first:
  "POST_upload_id (chunk_request None (Some ''bytes 50-99/2000'') (zeros 50)) = None \<and>
   declared_range \<lparr>max_bytes = Some 1000, fail_if_no_header = False\<rparr>
     (chunk_request None (Some ''bytes 50-99/2000'') (zeros 50)) (zeros 50) = Inr (50, 99, 2000) \<and>
   fst (ChunkedUploadView_post S0 \<lparr>max_bytes = Some 1000, fail_if_no_header = False\<rparr> E0
          (chunk_request None (Some ''bytes 50-99/2000'') (zeros 50)) w0)
     = Inl (SizeLimitExceeded 1000) \<and>
   fst (ChunkedUploadView_post S0 \<lparr>max_bytes = Some 1000, fail_if_no_header = False\<rparr> E0
          (chunk_request None (Some ''bytes 50-99/2000'') (zeros 50)) w0)
     \<noteq> Inl (OffsetMismatch 0)"
  by (simp add: view_defs fixture_defs create_chunked_upload_def SizeLimitExceeded_def
      OffsetMismatch_def)

subsection \<open>A range that runs past its total\<close>

text \<open>
  C10. The declared end is never compared with the declared total: a chunk whose range
  ends at or past the total is appended all the same, provided its start is the offset of
  the upload, its payload has \<open>end - start + 1\<close> bytes and the total is within \<open>max_bytes\<close>
  (the upload being stored, not expired and not complete, and the storage not failing).
  The upload then stands at the old offset plus the size of the chunk.
\<close>

theorem range_past_total_accepted:
  assumes "FILES_file request = Some chunk"
      and "POST_upload_id request = Some uid" and "uid \<noteq> []"
      and "get_queryset request w uid = Some row"
      and "pk row = Some k"
      and "created_on row = Some c" and "now E < c + EXPIRATION_DELTA S"
      and "status row \<noteq> COMPLETE"
      and "declared_range V request chunk = Inr (start, end', tot)"
      and "tot \<le> end'"
      and "start = offset row"
      and "size_of chunk = end' - start + 1"
      and "\<forall>m. max_bytes V = Some m \<longrightarrow> tot \<le> m"
      and "fault E = NoFault"
      and "storage w (file_name row) = Some bytes"
      and "int (length bytes) = offset row"
  shows "fst (ChunkedUploadView_post S V E request w) =
           Inr (Response (UploadData (upload_id row) (offset row + size_of chunk)
                  (Some (c + EXPIRATION_DELTA S))) HTTP_200_OK) \<and>
         objects (snd (ChunkedUploadView_post S V E request w)) (upload_id row) =
           Some (row\<lparr>offset := offset row + size_of chunk, md5_cache := None\<rparr>) \<and>
         storage (snd (ChunkedUploadView_post S V E request w)) (file_name row) =
           Some (bytes @ chunk_content chunk)"
proof -
  have "ChunkedUploadView_post S V E request w =
    (Inr (Response (UploadData (upload_id row) (offset row + size_of chunk)
            (Some (c + EXPIRATION_DELTA S))) HTTP_200_OK),
     w\<lparr>storage := (storage w)(file_name row \<mapsto> bytes @ chunk_content chunk),
        objects := (objects w)(upload_id row \<mapsto>
          row\<lparr>offset := offset row + size_of chunk, md5_cache := None\<rparr>)\<rparr>)"
    using assms by (intro continuing_chunk_accepted [where end' = end' and tot = tot]) simp_all
  then show ?thesis by simp
qed

text \<open>Ten bytes declared as \<open>bytes 0-9/5\<close>: the range ends past a total of 5.\<close>

theorem range_past_total_accepted_witness:
  "declared_range \<lparr>max_bytes = Some 1000, fail_if_no_header = False\<rparr>
     (chunk_request (Some ''u1'') (Some ''bytes 0-9/5'') (zeros 10)) (zeros 10) = Inr (0, 9, 5) \<and>
   fst (ChunkedUploadView_post S0 \<lparr>max_bytes = Some 1000, fail_if_no_header = False\<rparr> E0
          (chunk_request (Some ''u1'') (Some ''bytes 0-9/5'') (zeros 10)) w0)
     = Inr (Response (UploadData ''u1'' 10 (Some 86400)) HTTP_200_OK) \<and>
   objects (snd (ChunkedUploadView_post S0 \<lparr>max_bytes = Some 1000, fail_if_no_header = False\<rparr>
          E0 (chunk_request (Some ''u1'') (Some ''bytes 0-9/5'') (zeros 10)) w0)) ''u1''
     = Some (row0\<lparr>offset := 10\<rparr>)"
  using range_past_total_accepted [of "chunk_request (Some ''u1'') (Some ''bytes 0-9/5'') (zeros 10)"
      "zeros 10" "''u1''" w0 row0 1 0 E0 S0 "\<lparr>max_bytes = Some 1000, fail_if_no_header = False\<rparr>"
      0 9 5 "[]"]
  by (simp add: fixture_defs)

subsection \<open>A failing storage backend\<close>

text \<open>
  C6. The write of a chunk fails in the storage backend, the local file or the append
  blob. Then \<open>append_chunk\<close> raises that error and stores no row, with or without \<open>save\<close>;
  and a request that has passed the three checks of \<open>_post\<close> ends with the same error and
  the table unchanged, so the stored offset is not advanced.
\<close>

theorem failed_write_keeps_offset:
  assumes "fst (blob_sink S (fault E) self chunk (storage w)) = Some e"
  shows "fst (append_chunk S E chunk chunk_size save self w) = Inl e \<and>
         objects (snd (append_chunk S E chunk chunk_size save self w)) = objects w \<and>
         (offset self = start \<and> size_of chunk = end' - start + 1 \<and>
          (\<forall>m. max_bytes V = Some m \<longrightarrow> tot \<le> m) \<longrightarrow>
          fst (check_and_append S V E request chunk self (start, end', tot) w) = Inl e \<and>
          objects (snd (check_and_append S V E request chunk self (start, end', tot) w))
            = objects w)"
proof -
  obtain st where sink: "blob_sink S (fault E) self chunk (storage w) = (Some e, st)"
    using assms by (cases "blob_sink S (fault E) self chunk (storage w)") simp
  then have app: "append_chunk S E chunk cs sv self w = (Inl e, w\<lparr>storage := st\<rparr>)" for cs sv
    by (simp add: append_chunk_def)
  show ?thesis
    by (auto simp: app check_and_append_def get_max_bytes_def Let_def)
qed

text \<open>
  The local file takes 3 of 10 bytes and then fails: the error goes to the caller of
  \<open>_post\<close>, the row keeps offset 0, and the file has grown by 3 bytes.
\<close>

theorem failed_write_keeps_offset_witness:
  "fst (blob_sink S0 (WriteFault 3) row0 (zeros 10) (storage w0)) = Some StorageError \<and>
   fst (check_and_append S0 \<lparr>max_bytes = None, fail_if_no_header = False\<rparr>
          (E0\<lparr>fault := WriteFault 3\<rparr>)
          (chunk_request (Some ''u1'') (Some ''bytes 0-9/10'') (zeros 10)) (zeros 10) row0
          (0, 9, 10) w0) = Inl StorageError \<and>
   objects (snd (check_and_append S0 \<lparr>max_bytes = None, fail_if_no_header = False\<rparr>
          (E0\<lparr>fault := WriteFault 3\<rparr>)
          (chunk_request (Some ''u1'') (Some ''bytes 0-9/10'') (zeros 10)) (zeros 10) row0
          (0, 9, 10) w0)) ''u1'' = Some row0"
  using failed_write_keeps_offset [of S0 "E0\<lparr>fault := WriteFault 3\<rparr>" row0 "zeros 10" w0
      StorageError "Some 10" False 0 9 "\<lparr>max_bytes = None, fail_if_no_header = False\<rparr>" 10
      "chunk_request (Some ''u1'') (Some ''bytes 0-9/10'') (zeros 10)"]
  by (simp add: fixture_defs sink_defs)

subsection \<open>Completion\<close>

lemmas complete_defs = ChunkedUploadCompleteView_post_def validate_def get_object_or_404_def
  ChunkedUploadCompleteView_is_valid_chunked_upload_def md5_check_def md5_def view_save_def
  model_save_def get_uploaded_file_def on_completion_def

text \<open>
  C2 (as amended). A completion request names a stored upload whose backing object can be
  read. It succeeds if and only if the upload is not already complete and, when the
  checksum is verified, the request carries the digest of the whole backing object.
  Expiration plays no part: the view does not look at it. On success the stored status is
  \<open>COMPLETE\<close> and \<open>completed_on\<close> is the time of the request.
\<close>

theorem completion_succeeds_iff:
  assumes "truthy (POST_upload_id request)"
      and "get_queryset request w (the (POST_upload_id request)) = Some row"
      and "pk row = Some k"
      and "storage w (file_name row) = Some bytes"
  shows "((\<exists>r. fst (ChunkedUploadCompleteView_post S C E request w) = Inr r) \<longleftrightarrow>
          status row \<noteq> COMPLETE \<and>
          (do_md5_check C \<longrightarrow>
             POST_md5 request = Some (md5_hexdigest S bytes) \<and> md5_hexdigest S bytes \<noteq> [])) \<and>
         ((\<exists>r. fst (ChunkedUploadCompleteView_post S C E request w) = Inr r) \<longrightarrow>
          objects (snd (ChunkedUploadCompleteView_post S C E request w)) (upload_id row) =
            Some (row\<lparr>status := COMPLETE, completed_on := Some (now E), md5_cache := None\<rparr>))"
  using assms
  by (cases "POST_md5 request")
     (auto simp: complete_defs Let_def split: option.splits sum.splits)

text \<open>A matching digest on an upload that is still open, well before it expires.\<close>

theorem completion_succeeds_iff_witness:
  "get_queryset (complete_request (Some ''u1'') (Some ''0'')) w0 ''u1'' = Some row0 \<and>
   status row0 \<noteq> COMPLETE \<and>
   POST_md5 (complete_request (Some ''u1'') (Some ''0'')) = Some (md5_hexdigest S0 []) \<and>
   (\<exists>r. fst (ChunkedUploadCompleteView_post S0 \<lparr>do_md5_check = True\<rparr> E0
            (complete_request (Some ''u1'') (Some ''0'')) w0) = Inr r) \<and>
   objects (snd (ChunkedUploadCompleteView_post S0 \<lparr>do_md5_check = True\<rparr> E0
            (complete_request (Some ''u1'') (Some ''0'')) w0)) ''u1''
     = Some (row0\<lparr>status := COMPLETE, completed_on := Some 10\<rparr>)"
  using completion_succeeds_iff [of "complete_request (Some ''u1'') (Some ''0'')" w0 row0 1 "[]"
      S0 "\<lparr>do_md5_check = True\<rparr>" E0]
  by (simp add: fixture_defs toy_digest_def str_nat.simps)

text \<open>
  The claim as stated fails: the upload created at 0 with a window of 86400 has expired at
  90000, a chunk for it is refused with \<open>Expired\<close>, and its completion succeeds.
\<close>

theorem expired_upload_completes:
  "expired S0 (E0\<lparr>now := 90000\<rparr>) row0 = Inr True \<and>
   fst (ChunkedUploadView_post S0 \<lparr>max_bytes = None, fail_if_no_header = False\<rparr>
          (E0\<lparr>now := 90000\<rparr>)
          (chunk_request (Some ''u1'') (Some ''bytes 0-9/10'') (zeros 10)) w0) = Inl Expired \<and>
   fst (ChunkedUploadCompleteView_post S0 \<lparr>do_md5_check = True\<rparr> (E0\<lparr>now := 90000\<rparr>)
          (complete_request (Some ''u1'') (Some ''0'')) w0) = Inr (Response NoData HTTP_200_OK) \<and>
   objects (snd (ChunkedUploadCompleteView_post S0 \<lparr>do_md5_check = True\<rparr> (E0\<lparr>now := 90000\<rparr>)
          (complete_request (Some ''u1'') (Some ''0'')) w0)) ''u1''
     = Some (row0\<lparr>status := COMPLETE, completed_on := Some 90000\<rparr>)"
  by (simp add: complete_defs view_defs fixture_defs toy_digest_def str_nat.simps)

text \<open>
  C4. The checksum is verified, the completion request names a stored upload that is not
  complete, and it carries a checksum other than the digest of the whole backing object.
  Then the request fails with \<open>ChecksumMismatch\<close> and the world is as it was: the status
  and \<open>completed_on\<close> of the upload are untouched.
\<close>

theorem checksum_mismatch_changes_nothing:
  assumes "do_md5_check C"
      and "truthy (POST_upload_id request)"
      and "get_queryset request w (the (POST_upload_id request)) = Some row"
      and "status row \<noteq> COMPLETE"
      and "storage w (file_name row) = Some bytes"
      and "POST_md5 request = Some client_md5" and "client_md5 \<noteq> []"
      and "client_md5 \<noteq> md5_hexdigest S bytes"
  shows "ChunkedUploadCompleteView_post S C E request w = (Inl ChecksumMismatch, w)"
  using assms
  by (auto simp: complete_defs Let_def split: option.splits sum.splits)

theorem checksum_mismatch_changes_nothing_witness:
  "''7'' \<noteq> md5_hexdigest S0 [] \<and> status row0 = UPLOADING \<and> completed_on row0 = None \<and>
   ChunkedUploadCompleteView_post S0 \<lparr>do_md5_check = True\<rparr> E0
     (complete_request (Some ''u1'') (Some ''7'')) w0 = (Inl ChecksumMismatch, w0)"
  using checksum_mismatch_changes_nothing [of "\<lparr>do_md5_check = True\<rparr>"
      "complete_request (Some ''u1'') (Some ''7'')" w0 row0 "[]" "''7''" S0 E0]
  by (simp add: fixture_defs toy_digest_def str_nat.simps)

text \<open>
  C8. A completion request succeeds. Then the upload it names is stored with status
  \<open>COMPLETE\<close> and \<open>completed_on\<close> at the time of the request, its other columns as they
  were; and \<open>on_completion\<close> has been called, once, with the backing object of the upload
  opened for reading, the name of the upload and its offset as the size.
\<close>

theorem successful_completion:
  assumes "ChunkedUploadCompleteView_post S C E request w = (Inr r, w')"
  shows "\<exists>row row'. get_queryset request w (the (POST_upload_id request)) = Some row \<and>
           objects w' (upload_id row) = Some row' \<and>
           status row' = COMPLETE \<and> completed_on row' = Some (now E) \<and>
           offset row' = offset row \<and> file_name row' = file_name row \<and>
           filename row' = filename row \<and> user row' = user row \<and>
           storage w' = storage w \<and> storage w' (file_name row') \<noteq> None \<and>
           completions w' = completions w @
             [\<lparr>uf_file = file_name row', uf_name = filename row', uf_size = offset row'\<rparr>]"
  using assms
  by (auto simp: complete_defs Let_def split: option.splits sum.splits if_splits)

theorem successful_completion_witness:
  "ChunkedUploadCompleteView_post S0 \<lparr>do_md5_check = True\<rparr> E0
     (complete_request (Some ''u1'') (Some ''0'')) w0
   = (Inr (Response NoData HTTP_200_OK),
      \<lparr>objects = [''u1'' \<mapsto> row0\<lparr>status := COMPLETE, completed_on := Some 10\<rparr>],
       storage = [''tmp'' \<mapsto> []],
       completions = [\<lparr>uf_file = ''tmp'', uf_name = ''a.txt'', uf_size = 0\<rparr>]\<rparr>) \<and>
   (\<exists>row row'. get_queryset (complete_request (Some ''u1'') (Some ''0'')) w0 ''u1'' = Some row \<and>
      [''u1'' \<mapsto> row0\<lparr>status := COMPLETE, completed_on := Some 10\<rparr>] (upload_id row) = Some row' \<and>
      status row' = COMPLETE \<and> completed_on row' = Some 10 \<and>
      [\<lparr>uf_file = ''tmp'', uf_name = ''a.txt'', uf_size = 0\<rparr>]
        = completions w0 @ [\<lparr>uf_file = file_name row', uf_name = filename row', uf_size = offset row'\<rparr>])"
proof -
  have run: "ChunkedUploadCompleteView_post S0 \<lparr>do_md5_check = True\<rparr> E0
     (complete_request (Some ''u1'') (Some ''0'')) w0
   = (Inr (Response NoData HTTP_200_OK),
      \<lparr>objects = [''u1'' \<mapsto> row0\<lparr>status := COMPLETE, completed_on := Some 10\<rparr>],
       storage = [''tmp'' \<mapsto> []],
       completions = [\<lparr>uf_file = ''tmp'', uf_name = ''a.txt'', uf_size = 0\<rparr>]\<rparr>)"
    by (simp add: complete_defs fixture_defs toy_digest_def str_nat.simps)
  from successful_completion [OF run] obtain row row' where
    "get_queryset (complete_request (Some ''u1'') (Some ''0'')) w0
       (the (POST_upload_id (complete_request (Some ''u1'') (Some ''0'')))) = Some row"
    "[''u1'' \<mapsto> row0\<lparr>status := COMPLETE, completed_on := Some 10\<rparr>] (upload_id row) = Some row'"
    "status row' = COMPLETE" "completed_on row' = Some (now E0)"
    "[\<lparr>uf_file = ''tmp'', uf_name = ''a.txt'', uf_size = 0\<rparr>]
        = completions w0 @ [\<lparr>uf_file = file_name row', uf_name = filename row', uf_size = offset row'\<rparr>]"
    by auto
  then show ?thesis using run
    by (auto simp: complete_request_def E0_def)
qed

subsection \<open>Chunks in order\<close>

lemma passes_checksD:
  assumes "passes_checks V off E request"
  obtains chunk end' tot where "FILES_file request = Some chunk"
    and "declared_range V request chunk = Inr (off, end', tot)"
    and "size_of chunk = end' - off + 1"
    and "\<forall>m. max_bytes V = Some m \<longrightarrow> tot \<le> m"
    and "fault E = NoFault"
    and "payload request = chunk_content chunk"
  using assms
  by (auto simp: passes_checks_def payload_def split: option.splits sum.splits)

text \<open>
  The later requests, one after the other, on an upload whose backing object holds as many
  bytes as its offset says: every one is accepted, and the object and the offset grow by
  the payloads.
\<close>

lemma continues_in_order_run:
  assumes "continues_in_order S V uid owner created off reqs"
      and "objects w uid = Some row" and "upload_id row = uid" and "pk row = Some k"
      and "created_on row = Some created" and "user row = owner"
      and "status row = UPLOADING" and "offset row = off"
      and "storage w (file_name row) = Some bytes" and "int (length bytes) = off"
  shows "\<exists>rs w' row'. run_posts S V reqs w = (rs, w') \<and>
           list_all (\<lambda>r. \<not> isl r) rs \<and> length rs = length reqs \<and>
           objects w' uid = Some row' \<and> status row' = UPLOADING \<and>
           storage w' (file_name row') = Some (bytes @ concat (map (payload \<circ> snd) reqs)) \<and>
           offset row' = off + int (length (concat (map (payload \<circ> snd) reqs)))"
  using assms
proof (induction reqs arbitrary: w row off bytes)
  case Nil
  then show ?case by simp
next
  case (Cons a reqs)
  obtain E request where a: "a = (E, request)" by (cases a)
  from Cons.prems(1) a have uid: "POST_upload_id request = Some uid" "uid \<noteq> []"
    and owner: "case req_user request of Some (User u) \<Rightarrow> owner = Some u | _ \<Rightarrow> True"
    and fresh: "now E < created + EXPIRATION_DELTA S"
    and checks: "passes_checks V off E request"
    and rest: "continues_in_order S V uid owner created
                 (off + int (length (payload request))) reqs"
    by simp_all
  from checks obtain chunk end' tot where chunk: "FILES_file request = Some chunk"
    and rng: "declared_range V request chunk = Inr (off, end', tot)"
    and sz: "size_of chunk = end' - off + 1"
    and lim: "\<forall>m. max_bytes V = Some m \<longrightarrow> tot \<le> m"
    and ok: "fault E = NoFault"
    and pl: "payload request = chunk_content chunk"
    by (rule passes_checksD)
  have q: "get_queryset request w uid = Some row"
    using owner Cons.prems(2,6)
    by (auto simp: get_queryset_def split: option.splits principal.splits)
  define row1 where "row1 = row\<lparr>offset := offset row + size_of chunk, md5_cache := None\<rparr>"
  define w1 where "w1 = w\<lparr>storage := (storage w)(file_name row \<mapsto> bytes @ chunk_content chunk),
        objects := (objects w)(upload_id row \<mapsto> row1)\<rparr>"
  have step: "ChunkedUploadView_post S V E request w =
    (Inr (Response (UploadData (upload_id row) (offset row + size_of chunk)
            (Some (created + EXPIRATION_DELTA S))) HTTP_200_OK), w1)"
    unfolding w1_def row1_def
    using chunk uid q Cons.prems(4,5,7,8,9,10) fresh rng sz lim ok
    by (intro continuing_chunk_accepted [where end' = end' and tot = tot and k = k]) simp_all
  have len: "size_of chunk = int (length (payload request))"
    by (simp add: pl size_of_def)
  have "\<exists>rs w' row'. run_posts S V reqs w1 = (rs, w') \<and>
           list_all (\<lambda>r. \<not> isl r) rs \<and> length rs = length reqs \<and>
           objects w' uid = Some row' \<and> status row' = UPLOADING \<and>
           storage w' (file_name row') =
             Some ((bytes @ chunk_content chunk) @ concat (map (payload \<circ> snd) reqs)) \<and>
           offset row' = (off + int (length (payload request)))
             + int (length (concat (map (payload \<circ> snd) reqs)))"
    using rest Cons.prems(3,4,5,6,7,8,10)
    by (intro Cons.IH [where row = row1 and w = w1])
       (simp_all add: w1_def row1_def len pl)
  then obtain rs w' row' where run: "run_posts S V reqs w1 = (rs, w')"
    and acc: "list_all (\<lambda>r. \<not> isl r) rs" "length rs = length reqs"
    and row': "objects w' uid = Some row'" "status row' = UPLOADING"
      "storage w' (file_name row') =
         Some ((bytes @ chunk_content chunk) @ concat (map (payload \<circ> snd) reqs))"
      "offset row' = (off + int (length (payload request)))
         + int (length (concat (map (payload \<circ> snd) reqs)))"
    by blast
  show ?case
    using step run acc row' by (simp add: a pl comp_def)
qed

lemma length_concat_payloads:
  "int (length (concat (map payload requests))) = (\<Sum>r\<leftarrow>requests. int (length (payload r)))"
  by (induction requests) simp_all

text \<open>
  C3 (as amended). A sequence of chunk requests starts a new upload and goes on in order:
  each declared start is the offset reached so far and each payload has its declared
  size; moreover each declared total is within \<open>max_bytes\<close>, each later request names the
  upload, comes from its owner and arrives before it expires, and the storage does not
  fail. Then every request is accepted, the backing object is the concatenation of the
  payloads, and the stored offset is the sum of their lengths, which is the length of the
  backing object.
\<close>

theorem in_order_chunks_assembled:
  assumes "starts_upload V E0 first w"
      and "continues_in_order S V (uuid4_hex E0) (get_extra_attrs first) (now E0)
             (int (length (payload first))) rest"
  shows "\<exists>rs w' row bytes. run_posts S V ((E0, first) # rest) w = (rs, w') \<and>
           list_all (\<lambda>r. \<not> isl r) rs \<and> length rs = Suc (length rest) \<and>
           objects w' (uuid4_hex E0) = Some row \<and>
           storage w' (file_name row) = Some bytes \<and>
           bytes = concat (map payload (first # map snd rest)) \<and>
           offset row = (\<Sum>r\<leftarrow>first # map snd rest. int (length (payload r))) \<and>
           int (length bytes) = offset row"
proof -
  from assms(1) have new: "\<not> truthy (POST_upload_id first)"
    and unused: "objects w (uuid4_hex E0) = None"
    and checks: "passes_checks V 0 E0 first"
    by (simp_all add: starts_upload_def)
  from checks obtain chunk end' tot where chunk: "FILES_file first = Some chunk"
    and rng: "declared_range V first chunk = Inr (0, end', tot)"
    and sz: "size_of chunk = end' - 0 + 1"
    and lim: "\<forall>m. max_bytes V = Some m \<longrightarrow> tot \<le> m"
    and ok: "fault E0 = NoFault"
    and pl: "payload first = chunk_content chunk"
    by (rule passes_checksD)
  define row1 where "row1 =
    \<lparr>pk = Some (next_pk E0), upload_id = uuid4_hex E0, file_name = available_name E0,
     filename = chunk_name chunk, offset = size_of chunk, created_on = Some (now E0),
     status = UPLOADING, completed_on = None, user = get_extra_attrs first,
     md5_cache = None\<rparr>"
  define w1 where "w1 = w\<lparr>objects := (objects w)(uuid4_hex E0 \<mapsto> row1),
        storage := (storage w)(available_name E0 \<mapsto> chunk_content chunk)\<rparr>"
  have step: "ChunkedUploadView_post S V E0 first w =
    (Inr (Response (UploadData (uuid4_hex E0) (size_of chunk)
            (Some (now E0 + EXPIRATION_DELTA S))) HTTP_200_OK), w1)"
    unfolding w1_def row1_def
    using chunk new unused rng sz lim ok
    by (intro new_upload_accepted [where end' = end' and tot = tot]) simp_all
  have len: "size_of chunk = int (length (payload first))"
    by (simp add: pl size_of_def)
  have "\<exists>rs w' row'. run_posts S V rest w1 = (rs, w') \<and>
           list_all (\<lambda>r. \<not> isl r) rs \<and> length rs = length rest \<and>
           objects w' (uuid4_hex E0) = Some row' \<and> status row' = UPLOADING \<and>
           storage w' (file_name row') =
             Some (chunk_content chunk @ concat (map (payload \<circ> snd) rest)) \<and>
           offset row' = int (length (payload first))
             + int (length (concat (map (payload \<circ> snd) rest)))"
    using assms(2)
    by (intro continues_in_order_run [where row = row1 and k = "next_pk E0"])
       (simp_all add: w1_def row1_def len pl)
  then obtain rs w' row' where run: "run_posts S V rest w1 = (rs, w')"
    and acc: "list_all (\<lambda>r. \<not> isl r) rs" "length rs = length rest"
    and row': "objects w' (uuid4_hex E0) = Some row'"
      "storage w' (file_name row') =
         Some (chunk_content chunk @ concat (map (payload \<circ> snd) rest))"
      "offset row' = int (length (payload first))
         + int (length (concat (map (payload \<circ> snd) rest)))"
    by blast
  have total: "(\<Sum>r\<leftarrow>first # map snd rest. int (length (payload r)))
      = int (length (payload first)) + int (length (concat (map (payload \<circ> snd) rest)))"
    using length_concat_payloads [of "map snd rest"] by (simp add: comp_def)
  show ?thesis
    using step run acc row' total by (simp add: pl comp_def)
qed

text \<open>
  The spec's scenario: 50 bytes as \<open>bytes 0-49/100\<close>, then 50 bytes as \<open>bytes 50-99/100\<close>
  for the upload the first request created.
\<close>

theorem in_order_chunks_assembled_witness:
  "starts_upload \<lparr>max_bytes = Some 1000, fail_if_no_header = False\<rparr> E0
     (chunk_request None (Some ''bytes 0-49/100'') (zeros 50)) empty_world \<and>
   continues_in_order S0 \<lparr>max_bytes = Some 1000, fail_if_no_header = False\<rparr> ''u2'' None 10 50
     [(E0\<lparr>now := 20\<rparr>, chunk_request (Some ''u2'') (Some ''bytes 50-99/100'') (zeros 50))] \<and>
   (\<exists>rs w' row. run_posts S0 \<lparr>max_bytes = Some 1000, fail_if_no_header = False\<rparr>
        [(E0, chunk_request None (Some ''bytes 0-49/100'') (zeros 50)),
         (E0\<lparr>now := 20\<rparr>, chunk_request (Some ''u2'') (Some ''bytes 50-99/100'') (zeros 50))]
        empty_world = (rs, w') \<and>
      list_all (\<lambda>r. \<not> isl r) rs \<and> objects w' ''u2'' = Some row \<and> offset row = 100 \<and>
      storage w' (file_name row) = Some (replicate 100 0))"
proof -
  have first: "starts_upload \<lparr>max_bytes = Some 1000, fail_if_no_header = False\<rparr> E0
     (chunk_request None (Some ''bytes 0-49/100'') (zeros 50)) empty_world"
    by (simp add: starts_upload_def passes_checks_def fixture_defs)
  have rest: "continues_in_order S0 \<lparr>max_bytes = Some 1000, fail_if_no_header = False\<rparr>
     (uuid4_hex E0) (get_extra_attrs (chunk_request None (Some ''bytes 0-49/100'') (zeros 50)))
     (now E0) (int (length (payload (chunk_request None (Some ''bytes 0-49/100'') (zeros 50)))))
     [(E0\<lparr>now := 20\<rparr>, chunk_request (Some ''u2'') (Some ''bytes 50-99/100'') (zeros 50))]"
    by (simp add: passes_checks_def payload_def get_extra_attrs_def fixture_defs)
  have sum: "replicate 50 (0::byte) @ replicate 50 0 = replicate 100 0"
    by (simp add: replicate_add [symmetric])
  from in_order_chunks_assembled [OF first rest] first rest sum show ?thesis
    by (auto simp: payload_def get_extra_attrs_def fixture_defs)
qed

text \<open>
  The claim as stated fails: the first chunk of a new upload, in order and of the declared
  size, is refused when its declared total of 2000 exceeds \<open>max_bytes = 1000\<close>.
\<close>

theorem in_order_chunk_over_limit_refused:
  "declared_range \<lparr>max_bytes = Some 1000, fail_if_no_header = False\<rparr>
     (chunk_request None (Some ''bytes 0-9/2000'') (zeros 10)) (zeros 10) = Inr (0, 9, 2000) \<and>
   size_of (zeros 10) = 9 - 0 + 1 \<and>
   fst (run_posts S0 \<lparr>max_bytes = Some 1000, fail_if_no_header = False\<rparr>
          [(E0, chunk_request None (Some ''bytes 0-9/2000'') (zeros 10))] empty_world)
     = [Inl (SizeLimitExceeded 1000)] \<and>
   objects (snd (run_posts S0 \<lparr>max_bytes = Some 1000, fail_if_no_header = False\<rparr>
          [(E0, chunk_request None (Some ''bytes 0-9/2000'') (zeros 10))] empty_world))
     = Map.empty"
  by (simp add: view_defs fixture_defs create_chunked_upload_def)

end
